theory Spec2Isabelle
  imports Complex_Main
begin

section \<open>Values exchanged with the fleet manager\<close>

text \<open>
  \<^verbatim>\<open>RobotClientAPI.py\<close> handles whatever \<^verbatim>\<open>response.json()\<close> decodes: Python's
  \<^verbatim>\<open>None\<close>, booleans, integers, floats, strings, lists and dictionaries. A dictionary is
  an association list read with \<open>map_of\<close>. A decoded float is represented by its value,
  a real number; arithmetic on floats is not computed on these values but taken from the
  runtime (see \<open>float_ops\<close> below).
\<close>

datatype json =
    JNull
  | JBool bool
  | JInt int
  | JFloat real
  | JStr string
  | JArr "json list"
  | JObj "(string \<times> json) list"

text \<open>The exceptions the modelled code can raise.\<close>

datatype error =
    KeyError | TypeError | AttributeError | AssertionError | OverflowError | ValueError

text \<open>
  \<^verbatim>\<open>v[key]\<close> with a string key: a dictionary looks the key up and raises
  \<^verbatim>\<open>KeyError\<close> when it is missing; every other value raises \<^verbatim>\<open>TypeError\<close>.
\<close>

fun subscript :: "json \<Rightarrow> string \<Rightarrow> error + json" where
  "subscript (JObj kvs) key = (case map_of kvs key of None \<Rightarrow> Inl KeyError | Some v \<Rightarrow> Inr v)"
| "subscript v key = Inl TypeError"

text \<open>
  \<^verbatim>\<open>v.get(key)\<close>: a dictionary answers \<^verbatim>\<open>None\<close> for a missing key; no other value has
  the method (\<^verbatim>\<open>AttributeError\<close>).
\<close>

fun get_py :: "json \<Rightarrow> string \<Rightarrow> error + json" where
  "get_py (JObj kvs) key = (case map_of kvs key of None \<Rightarrow> Inr JNull | Some v \<Rightarrow> Inr v)"
| "get_py v key = Inl AttributeError"

text \<open>The number a value stands for in arithmetic and comparisons (\<^verbatim>\<open>bool\<close> is a
  subclass of \<^verbatim>\<open>int\<close>); \<open>None\<close> for a value that is no number.\<close>

fun py_num :: "json \<Rightarrow> real option" where
  "py_num (JBool b) = Some (if b then 1 else 0)"
| "py_num (JInt i) = Some (real_of_int i)"
| "py_num (JFloat r) = Some r"
| "py_num v = None"

text \<open>\<^verbatim>\<open>v == cmd_id\<close> for an integer \<^verbatim>\<open>cmd_id\<close>: numbers compare by value, everything
  else is unequal to an integer.\<close>

definition py_eq_int :: "json \<Rightarrow> int \<Rightarrow> bool" where
  "py_eq_int v cmd_id = (case py_num v of None \<Rightarrow> False | Some r \<Rightarrow> r = real_of_int cmd_id)"

text \<open>Truth value of a value in \<^verbatim>\<open>if not v\<close>.\<close>

fun truthy :: "json \<Rightarrow> bool" where
  "truthy JNull = False"
| "truthy (JBool b) = b"
| "truthy (JInt i) = (i \<noteq> 0)"
| "truthy (JFloat r) = (r \<noteq> 0)"
| "truthy (JStr s) = (s \<noteq> [])"
| "truthy (JArr xs) = (xs \<noteq> [])"
| "truthy (JObj kvs) = (kvs \<noteq> [])"

section \<open>The request/response channel\<close>

text \<open>
  What one \<^verbatim>\<open>requests.get\<close> or \<^verbatim>\<open>requests.post\<close> does: the call itself raises
  (\<open>Raises\<close>: connection refused, timeout, a payload that cannot be encoded), or it
  returns a response whose status is good or not (\<^verbatim>\<open>raise_for_status\<close>) and whose body
  \<^verbatim>\<open>response.json()\<close> decodes (\<open>Some\<close>) or rejects (\<open>None\<close>). The responder is a
  parameter of every operation: a function from the URL (and the posted payload).
\<close>

datatype http_result = Raises | Response bool "json option"

record MQTTClient =
  name :: string
  connected :: bool

text \<open>A beacon's entry \<^verbatim>\<open>[loc, robot]\<close> in \<^verbatim>\<open>self.beacons\<close>.\<close>

record beacon_data =
  beacon_loc :: "json list"
  current_robot :: "string option"

record RobotAPI =
  prefix :: string
  user :: string
  password :: string
  timeout :: real
  debug :: bool
  mqtt_client :: "MQTTClient option"
  beacons :: "(string \<times> beacon_data) list"
  beacon_radius :: real

text \<open>
  \<^verbatim>\<open>RobotAPI.data\<close>: the decoded status response, or \<^verbatim>\<open>None\<close> (\<open>JNull\<close>) when the
  request raises, the status is bad or the body does not decode. Both \<^verbatim>\<open>except\<close>
  clauses only print, so every exception of the \<^verbatim>\<open>try\<close> block ends in
  \<^verbatim>\<open>return None\<close>.
\<close>

definition data :: "RobotAPI \<Rightarrow> (string \<Rightarrow> http_result) \<Rightarrow> string option \<Rightarrow> json" where
  "data self http_get robot_name =
     (let url = (case robot_name of
                   None \<Rightarrow> prefix self @ ''/open-rmf/rmf_demos_fm/status/''
                 | Some n \<Rightarrow> prefix self @ ''/open-rmf/rmf_demos_fm/status?robot_name='' @ n)
      in case http_get url of
           Raises \<Rightarrow> JNull
         | Response ok body \<Rightarrow>
             if \<not> ok then JNull
             else (case body of None \<Rightarrow> JNull | Some j \<Rightarrow> j))"

section \<open>Command tracking\<close>

text \<open>\<^verbatim>\<open>RobotAPI.navigation_completed\<close>.\<close>

definition navigation_completed ::
    "RobotAPI \<Rightarrow> (string \<Rightarrow> http_result) \<Rightarrow> string \<Rightarrow> int \<Rightarrow> error + bool" where
  "navigation_completed self http_get robot_name cmd_id =
     (let response = data self http_get (Some robot_name) in
      if response \<noteq> JNull then
        (case get_py response ''data'' of
           Inl e \<Rightarrow> Inl e
         | Inr d \<Rightarrow>
             if d \<noteq> JNull then
               (case subscript d ''last_completed_request'' of
                  Inl e \<Rightarrow> Inl e
                | Inr v \<Rightarrow> Inr (py_eq_int v cmd_id))
             else Inr False)
      else Inr False)"

text \<open>\<^verbatim>\<open>RobotAPI.process_completed\<close>.\<close>

definition process_completed ::
    "RobotAPI \<Rightarrow> (string \<Rightarrow> http_result) \<Rightarrow> string \<Rightarrow> int \<Rightarrow> error + bool" where
  "process_completed self http_get robot_name cmd_id =
     navigation_completed self http_get robot_name cmd_id"

text \<open>\<^verbatim>\<open>RobotAPI.navigation_remaining_duration\<close>.\<close>

definition navigation_remaining_duration ::
    "RobotAPI \<Rightarrow> (string \<Rightarrow> http_result) \<Rightarrow> string \<Rightarrow> int \<Rightarrow> error + json" where
  "navigation_remaining_duration self http_get robot_name cmd_id =
     (let response = data self http_get (Some robot_name) in
      if response = JNull then Inr JNull
      else
        (case subscript response ''data'' of
           Inl e \<Rightarrow> Inl e
         | Inr d \<Rightarrow>
             (case get_py d ''destination_arrival'' of
                Inl e \<Rightarrow> Inl e
              | Inr arrival \<Rightarrow>
                  if arrival \<noteq> JNull then
                    (case get_py arrival ''cmd_id'' of
                       Inl e \<Rightarrow> Inl e
                     | Inr c \<Rightarrow>
                         if \<not> py_eq_int c cmd_id then Inr JNull
                         else get_py arrival ''duration'')
                  else Inr JNull)))"

text \<open>A responder that answers every request with status OK and the body \<open>j\<close>, and one
  whose connection fails.\<close>

definition responder :: "json \<Rightarrow> string \<Rightarrow> http_result" where
  "responder j url = Response True (Some j)"

definition unreachable :: "string \<Rightarrow> http_result" where
  "unreachable url = Raises"

text \<open>A caller polling \<^verbatim>\<open>navigation_completed\<close> once per state of the responder.\<close>

primrec polls ::
    "RobotAPI \<Rightarrow> (string \<Rightarrow> http_result) list \<Rightarrow> string \<Rightarrow> int \<Rightarrow> (error + bool) list" where
  "polls self [] robot_name cmd_id = []"
| "polls self (g # gs) robot_name cmd_id =
     navigation_completed self g robot_name cmd_id # polls self gs robot_name cmd_id"

text \<open>A status response that reports success and carries the data record \<open>kvs\<close>.\<close>

definition status_with :: "(string \<times> json) list \<Rightarrow> json" where
  "status_with kvs = JObj [(''success'', JBool True), (''data'', JObj kvs)]"

text \<open>An adapter with no beacon signalling configured.\<close>

definition api0 :: RobotAPI where
  "api0 = \<lparr>prefix = ''http://127.0.0.1:22011'', user = ''u'', password = ''p'',
           timeout = 5, debug = False, mqtt_client = None, beacons = [], beacon_radius = 0\<rparr>"

text \<open>\<^verbatim>\<open>str(n)\<close> for an integer, as the f-string of a request URL formats \<^verbatim>\<open>cmd_id\<close>.\<close>

fun str_nat :: "nat \<Rightarrow> string" where
  "str_nat n =
     (if n < 10 then [char_of (48 + n)]
      else str_nat (n div 10) @ [char_of (48 + n mod 10)])"

declare str_nat.simps [simp del]

definition str_int :: "int \<Rightarrow> string" where
  "str_int i = (if i < 0 then CHR ''-'' # str_nat (nat (- i)) else str_nat (nat i))"

text \<open>
  \<^verbatim>\<open>RobotAPI.navigate\<close>, first the request it builds: the URL and the dictionary
  \<^verbatim>\<open>data\<close> sent as JSON.
\<close>

definition navigate_url :: "RobotAPI \<Rightarrow> string \<Rightarrow> int \<Rightarrow> string" where
  "navigate_url self robot_name cmd_id =
     prefix self @ ''/open-rmf/rmf_demos_fm/navigate/?robot_name='' @ robot_name
       @ ''&cmd_id='' @ str_int cmd_id"

definition navigate_payload :: "json list \<Rightarrow> string \<Rightarrow> real \<Rightarrow> json" where
  "navigate_payload pose map_name speed_limit =
     JObj [(''map_name'', JStr map_name),
           (''destination'', JObj [(''x'', pose ! 0), (''y'', pose ! 1), (''yaw'', pose ! 2)]),
           (''speed_limit'', JFloat speed_limit)]"

text \<open>
  The assertion on \<^verbatim>\<open>pose\<close> stands before the \<^verbatim>\<open>try\<close> block and propagates; every
  exception inside the block (the request, the status check, decoding, the lookup of
  \<^verbatim>\<open>'success'\<close>) is caught and ends in \<^verbatim>\<open>return False\<close>. Otherwise the value stored
  under \<^verbatim>\<open>'success'\<close> is returned as it is.
\<close>

definition navigate ::
    "RobotAPI \<Rightarrow> (string \<Rightarrow> json \<Rightarrow> http_result) \<Rightarrow> string \<Rightarrow> int \<Rightarrow> json list \<Rightarrow> string \<Rightarrow> real
       \<Rightarrow> error + json" where
  "navigate self http_post robot_name cmd_id pose map_name speed_limit =
     (if \<not> length pose > 2 then Inl AssertionError
      else
        (case http_post (navigate_url self robot_name cmd_id)
                (navigate_payload pose map_name speed_limit) of
           Raises \<Rightarrow> Inr (JBool False)
         | Response ok body \<Rightarrow>
             if \<not> ok then Inr (JBool False)
             else (case body of
                     None \<Rightarrow> Inr (JBool False)
                   | Some j \<Rightarrow>
                       (case subscript j ''success'' of
                          Inl e \<Rightarrow> Inr (JBool False)
                        | Inr v \<Rightarrow> Inr v))))"

text \<open>A command endpoint that answers every request with status OK and the body \<open>j\<close>.\<close>

definition post_responder :: "json \<Rightarrow> string \<Rightarrow> json \<Rightarrow> http_result" where
  "post_responder j url payload = Response True (Some j)"

section \<open>Beacon signalling\<close>

text \<open>
  What \<^verbatim>\<open>update_beacon\<close> does to the world, in program order: a message handed to
  \<^verbatim>\<open>self.mqtt_client.client.publish\<close> (topic and the message before \<^verbatim>\<open>json.dumps\<close>),
  and an assignment \<^verbatim>\<open>self.beacons[beacon_id][1] = v\<close>.
\<close>

datatype effect = Publish string json | SetOccupant string "string option"

text \<open>The closures \<^verbatim>\<open>_beacon_on\<close> and \<^verbatim>\<open>_beacon_off\<close>: the one publish each performs.\<close>

definition beacon_on :: "string \<Rightarrow> effect" where
  "beacon_on beacon_id =
     (let mqtt_topic = ''cgh/'' @ beacon_id @ ''/toggle_beacon_topic'';
          msg = JObj [(''id'', JStr beacon_id), (''toggle'', JInt 1)]
      in Publish mqtt_topic msg)"

definition beacon_off :: "string \<Rightarrow> effect" where
  "beacon_off beacon_id =
     (let mqtt_topic = ''cgh/'' @ beacon_id @ ''/toggle_beacon_topic'';
          msg = JObj [(''id'', JStr beacon_id), (''toggle'', JInt 0)]
      in Publish mqtt_topic msg)"

text \<open>
  A Python float: a finite value, an infinity or NaN. Comparisons are by value, every
  comparison with NaN is false.
\<close>

datatype pyfloat = Finite real | PosInf | NegInf | NaN

fun float_lt :: "pyfloat \<Rightarrow> pyfloat \<Rightarrow> bool" where
  "float_lt (Finite x) (Finite y) = (x < y)"
| "float_lt (Finite x) PosInf = True"
| "float_lt NegInf (Finite y) = True"
| "float_lt NegInf PosInf = True"
| "float_lt a b = False"

definition float_gt :: "pyfloat \<Rightarrow> pyfloat \<Rightarrow> bool" where
  "float_gt a b = float_lt b a"

text \<open>
  The floating-point arithmetic of the Python runtime, a parameter of the model: the
  conversion of an integer to a float, subtraction, addition, \<^verbatim>\<open>x ** 2\<close> and
  \<^verbatim>\<open>math.sqrt\<close> on floats. Each operation returns the float the runtime computes
  (rounded, possibly infinite or NaN) or raises (\<^verbatim>\<open>OverflowError\<close> from the conversion
  of a large integer and from \<^verbatim>\<open>**\<close>, \<^verbatim>\<open>ValueError\<close> from \<^verbatim>\<open>math.sqrt\<close>). Nothing is
  assumed about the results.
\<close>

record float_ops =
  float_of_int :: "int \<Rightarrow> error + pyfloat"
  float_sub :: "pyfloat \<Rightarrow> pyfloat \<Rightarrow> error + pyfloat"
  float_add :: "pyfloat \<Rightarrow> pyfloat \<Rightarrow> error + pyfloat"
  float_pow2 :: "pyfloat \<Rightarrow> error + pyfloat"
  float_sqrt :: "pyfloat \<Rightarrow> error + pyfloat"

text \<open>A Python number: an integer of any size (a \<^verbatim>\<open>bool\<close> counts as one) or a float.\<close>

datatype pynum = PyInt int | PyFloat pyfloat

fun as_number :: "json \<Rightarrow> pynum option" where
  "as_number (JBool b) = Some (PyInt (if b then 1 else 0))"
| "as_number (JInt i) = Some (PyInt i)"
| "as_number (JFloat r) = Some (PyFloat (Finite r))"
| "as_number v = None"

text \<open>Sequencing of steps that may raise.\<close>

definition and_then :: "error + 'a \<Rightarrow> ('a \<Rightarrow> error + 'b) \<Rightarrow> error + 'b" where
  "and_then r f = (case r of Inl e \<Rightarrow> Inl e | Inr v \<Rightarrow> f v)"

fun to_float :: "float_ops \<Rightarrow> pynum \<Rightarrow> error + pyfloat" where
  "to_float fl (PyInt i) = float_of_int fl i"
| "to_float fl (PyFloat x) = Inr x"

text \<open>
  Python's \<^verbatim>\<open>-\<close>, \<^verbatim>\<open>+\<close> and \<^verbatim>\<open>** 2\<close> on numbers: exact on two integers, otherwise
  the integer operand is converted and the float operation is used.
\<close>

fun py_sub_num :: "float_ops \<Rightarrow> pynum \<Rightarrow> pynum \<Rightarrow> error + pynum" where
  "py_sub_num fl (PyInt a) (PyInt b) = Inr (PyInt (a - b))"
| "py_sub_num fl x y =
     and_then (to_float fl x) (\<lambda>fx.
     and_then (to_float fl y) (\<lambda>fy.
     and_then (float_sub fl fx fy) (\<lambda>r. Inr (PyFloat r))))"

fun py_add_num :: "float_ops \<Rightarrow> pynum \<Rightarrow> pynum \<Rightarrow> error + pynum" where
  "py_add_num fl (PyInt a) (PyInt b) = Inr (PyInt (a + b))"
| "py_add_num fl x y =
     and_then (to_float fl x) (\<lambda>fx.
     and_then (to_float fl y) (\<lambda>fy.
     and_then (float_add fl fx fy) (\<lambda>r. Inr (PyFloat r))))"

fun py_pow2 :: "float_ops \<Rightarrow> pynum \<Rightarrow> error + pynum" where
  "py_pow2 fl (PyInt a) = Inr (PyInt (a * a))"
| "py_pow2 fl (PyFloat x) = and_then (float_pow2 fl x) (\<lambda>r. Inr (PyFloat r))"

text \<open>\<^verbatim>\<open>u - v\<close> on decoded values: \<^verbatim>\<open>TypeError\<close> unless both are numbers.\<close>

definition py_sub :: "float_ops \<Rightarrow> json \<Rightarrow> json \<Rightarrow> error + pynum" where
  "py_sub fl u v =
     (case (as_number u, as_number v) of
        (Some x, Some y) \<Rightarrow> py_sub_num fl x y
      | _ \<Rightarrow> Inl TypeError)"

text \<open>\<^verbatim>\<open>math.sqrt\<close>: the argument is converted to a float first.\<close>

definition math_sqrt :: "float_ops \<Rightarrow> pynum \<Rightarrow> error + pyfloat" where
  "math_sqrt fl x = and_then (to_float fl x) (float_sqrt fl)"

text \<open>
  The closure \<^verbatim>\<open>_dist\<close>: both assertions, then
  \<^verbatim>\<open>math.sqrt((A[0] - B[0])**2 + (A[1] - B[1])**2)\<close>, evaluated left to right with the
  runtime's arithmetic \<open>fl\<close>. The result is the float the code computes, which need not be
  the exact Euclidean distance, or the exception raised on the way.
\<close>

definition dist_py :: "float_ops \<Rightarrow> json list \<Rightarrow> json list \<Rightarrow> error + pyfloat" where
  "dist_py fl A B =
     (if \<not> length A > 1 then Inl AssertionError
      else if \<not> length B > 1 then Inl AssertionError
      else
        and_then (py_sub fl (A ! 0) (B ! 0)) (\<lambda>dx.
        and_then (py_pow2 fl dx) (\<lambda>sx.
        and_then (py_sub fl (A ! 1) (B ! 1)) (\<lambda>dy.
        and_then (py_pow2 fl dy) (\<lambda>sy.
        and_then (py_add_num fl sx sy) (math_sqrt fl))))))"

text \<open>
  The body of the loop of \<^verbatim>\<open>update_beacon\<close> for one item
  \<^verbatim>\<open>(beacon_id, beacon_data)\<close> of \<^verbatim>\<open>self.beacons\<close>. A dictionary holds each key
  once, so \<^verbatim>\<open>self.beacons[beacon_id]\<close> is the entry being visited: the assignments
  write to it. The radius is the configured number, compared by value with the float
  \<^verbatim>\<open>_dist\<close> returns. An exception of \<^verbatim>\<open>_dist\<close> is raised before the item has had any
  effect.
\<close>

definition beacon_body ::
    "float_ops \<Rightarrow> real \<Rightarrow> string \<Rightarrow> json list \<Rightarrow> string \<Rightarrow> beacon_data
       \<Rightarrow> error + (effect list \<times> beacon_data)" where
  "beacon_body fl radius robot_name robot_pos beacon_id bd =
     (case (if current_robot bd = Some robot_name then
              (case dist_py fl (beacon_loc bd) robot_pos of
                 Inl e \<Rightarrow> Inl e
               | Inr d \<Rightarrow>
                   if float_gt d (Finite radius) then
                     Inr ([beacon_off beacon_id, SetOccupant beacon_id None],
                          bd\<lparr>current_robot := None\<rparr>)
                   else Inr ([], bd))
            else Inr ([], bd)) of
        Inl e \<Rightarrow> Inl e
      | Inr (tr, bd1) \<Rightarrow>
          (case dist_py fl (beacon_loc bd) robot_pos of
             Inl e \<Rightarrow> Inl e
           | Inr d \<Rightarrow>
               if float_lt d (Finite radius) then
                 Inr (tr @ [beacon_on beacon_id, SetOccupant beacon_id (Some robot_name)],
                      bd1\<lparr>current_robot := Some robot_name\<rparr>)
               else Inr (tr, bd1)))"

text \<open>
  The loop over \<^verbatim>\<open>self.beacons.items()\<close>, in the dictionary's order. An exception stops
  it: the items visited before keep their new state and their effects stay done, the rest
  is untouched. The result is the exception (if any), the effects in order, and the
  beacons afterwards.
\<close>

fun beacon_loop ::
    "float_ops \<Rightarrow> real \<Rightarrow> string \<Rightarrow> json list \<Rightarrow> (string \<times> beacon_data) list
       \<Rightarrow> error option \<times> effect list \<times> (string \<times> beacon_data) list" where
  "beacon_loop fl radius robot_name robot_pos [] = (None, [], [])"
| "beacon_loop fl radius robot_name robot_pos ((beacon_id, bd) # items) =
     (case beacon_body fl radius robot_name robot_pos beacon_id bd of
        Inl e \<Rightarrow> (Some e, [], (beacon_id, bd) # items)
      | Inr (tr, bd') \<Rightarrow>
          (case beacon_loop fl radius robot_name robot_pos items of
             (r, tr', items') \<Rightarrow> (r, tr @ tr', (beacon_id, bd') # items')))"

text \<open>\<^verbatim>\<open>RobotAPI.update_beacon\<close>.\<close>

definition update_beacon ::
    "float_ops \<Rightarrow> RobotAPI \<Rightarrow> string \<Rightarrow> json list
       \<Rightarrow> error option \<times> effect list \<times> RobotAPI" where
  "update_beacon fl self robot_name robot_pos =
     (case mqtt_client self of
        None \<Rightarrow> (None, [], self)
      | Some c \<Rightarrow>
          (case beacon_loop fl (beacon_radius self) robot_name robot_pos (beacons self) of
             (r, tr, items') \<Rightarrow> (r, tr, self\<lparr>beacons := items'\<rparr>)))"

text \<open>
  \<^verbatim>\<open>RobotAPI.position\<close>: the value returned or the exception that leaves the call, the
  effects of the beacon update, and the adapter afterwards (\<open>fl\<close> is the runtime's float
  arithmetic, used by the beacon update).
\<close>

definition position ::
    "float_ops \<Rightarrow> RobotAPI \<Rightarrow> (string \<Rightarrow> http_result) \<Rightarrow> string
       \<Rightarrow> (error + json) \<times> effect list \<times> RobotAPI" where
  "position fl self http_get robot_name =
     (let response = data self http_get (Some robot_name) in
      if response \<noteq> JNull then
        (case subscript response ''success'' of
           Inl e \<Rightarrow> (Inl e, [], self)
         | Inr s \<Rightarrow>
             if \<not> truthy s then (Inr JNull, [], self)
             else
               (case subscript response ''data'' of
                  Inl e \<Rightarrow> (Inl e, [], self)
                | Inr d \<Rightarrow>
               (case subscript d ''position'' of
                  Inl e \<Rightarrow> (Inl e, [], self)
                | Inr p \<Rightarrow>
               (case subscript p ''x'' of
                  Inl e \<Rightarrow> (Inl e, [], self)
                | Inr x \<Rightarrow>
               (case subscript p ''y'' of
                  Inl e \<Rightarrow> (Inl e, [], self)
                | Inr y \<Rightarrow>
               (case subscript p ''yaw'' of
                  Inl e \<Rightarrow> (Inl e, [], self)
                | Inr angle \<Rightarrow>
                    (case update_beacon fl self robot_name [x, y] of
                       (Some e, tr, self') \<Rightarrow> (Inl e, tr, self')
                     | (None, tr, self') \<Rightarrow> (Inr (JArr [x, y, angle]), tr, self'))))))))
      else (Inr JNull, [], self))"

text \<open>Position of the first occurrence of \<open>x\<close> in a list (its length when there is none).\<close>

fun index_of :: "'a \<Rightarrow> 'a list \<Rightarrow> nat" where
  "index_of x [] = 0"
| "index_of x (y # ys) = (if x = y then 0 else Suc (index_of x ys))"

text \<open>
  A configured adapter: beacon \<open>b1\<close> at the origin (occupied by \<open>occ\<close>) and beacon
  \<open>b2\<close> at \<open>(3, 0)\<close>, alert radius 2.
\<close>

definition api1 :: "string option \<Rightarrow> RobotAPI" where
  "api1 occ = \<lparr>prefix = ''http://127.0.0.1:22011'', user = ''u'', password = ''p'',
           timeout = 5, debug = False,
           mqtt_client = Some \<lparr>name = ''MiR_Fleet'', connected = True\<rparr>,
           beacons = [(''b1'', \<lparr>beacon_loc = [JInt 0, JInt 0], current_robot = occ\<rparr>),
                      (''b2'', \<lparr>beacon_loc = [JInt 3, JInt 0], current_robot = None\<rparr>)],
           beacon_radius = 2\<rparr>"

text \<open>
  One arithmetic, for the concrete runs below: the operations without rounding and without
  overflow, with the usual rules for infinities and NaN. Double arithmetic agrees with it
  wherever the exact result is a double. The runs use integer coordinates, for which Python
  computes with exact integers up to \<^verbatim>\<open>math.sqrt\<close> of 1, 4 or 25.
\<close>

fun exact_sub :: "pyfloat \<Rightarrow> pyfloat \<Rightarrow> pyfloat" where
  "exact_sub (Finite x) (Finite y) = Finite (x - y)"
| "exact_sub NaN b = NaN"
| "exact_sub a NaN = NaN"
| "exact_sub PosInf PosInf = NaN"
| "exact_sub NegInf NegInf = NaN"
| "exact_sub PosInf b = PosInf"
| "exact_sub NegInf b = NegInf"
| "exact_sub a PosInf = NegInf"
| "exact_sub a NegInf = PosInf"

fun exact_add :: "pyfloat \<Rightarrow> pyfloat \<Rightarrow> pyfloat" where
  "exact_add (Finite x) (Finite y) = Finite (x + y)"
| "exact_add NaN b = NaN"
| "exact_add a NaN = NaN"
| "exact_add PosInf NegInf = NaN"
| "exact_add NegInf PosInf = NaN"
| "exact_add PosInf b = PosInf"
| "exact_add NegInf b = NegInf"
| "exact_add a PosInf = PosInf"
| "exact_add a NegInf = NegInf"

fun exact_pow2 :: "pyfloat \<Rightarrow> error + pyfloat" where
  "exact_pow2 (Finite x) = Inr (Finite (x * x))"
| "exact_pow2 NaN = Inr NaN"
| "exact_pow2 a = Inr PosInf"

fun exact_sqrt :: "pyfloat \<Rightarrow> error + pyfloat" where
  "exact_sqrt (Finite x) = (if x < 0 then Inl ValueError else Inr (Finite (sqrt x)))"
| "exact_sqrt PosInf = Inr PosInf"
| "exact_sqrt NegInf = Inl ValueError"
| "exact_sqrt NaN = Inr NaN"

definition exact_ops :: float_ops where
  "exact_ops =
     \<lparr>float_of_int = (\<lambda>i. Inr (Finite (real_of_int i))),
      float_sub = (\<lambda>a b. Inr (exact_sub a b)),
      float_add = (\<lambda>a b. Inr (exact_add a b)),
      float_pow2 = exact_pow2,
      float_sqrt = exact_sqrt\<rparr>"

text \<open>Whether an effect is a publish for, or a write to, beacon \<open>b\<close>.\<close>

definition about :: "string \<Rightarrow> effect \<Rightarrow> bool" where
  "about b e =
     (e = beacon_on b \<or> e = beacon_off b \<or>
      (case e of SetOccupant k v \<Rightarrow> k = b | Publish t m \<Rightarrow> False))"

text \<open>
  An effect read as an operation on the dictionary \<^verbatim>\<open>self.beacons\<close>: a publish leaves
  it alone, \<^verbatim>\<open>self.beacons[k][1] = v\<close> writes the occupant of the entry under \<open>k\<close>.
\<close>

fun apply_effect :: "effect \<Rightarrow> (string \<times> beacon_data) list \<Rightarrow> (string \<times> beacon_data) list" where
  "apply_effect (Publish t m) items = items"
| "apply_effect (SetOccupant k v) items =
     map (\<lambda>(k', bd). if k' = k then (k', bd\<lparr>current_robot := v\<rparr>) else (k', bd)) items"

section \<open>Properties of command tracking\<close>

lemma data_responder: "data self (responder j) rn = j"
  by (simp add: data_def responder_def split: option.split)

lemma data_unreachable: "data self unreachable rn = JNull"
  by (simp add: data_def unreachable_def split: option.split)

lemma subscript_Inr:
  "subscript x k = Inr v \<longleftrightarrow> (\<exists>kvs. x = JObj kvs \<and> map_of kvs k = Some v)"
  by (cases x) (auto split: option.splits)

lemma get_py_Inr:
  "get_py x k = Inr v \<longleftrightarrow>
     (\<exists>kvs. x = JObj kvs \<and> (map_of kvs k = Some v \<or> (map_of kvs k = None \<and> v = JNull)))"
  by (cases x) (auto split: option.splits)

lemma navigation_completed_True_iff:
  "navigation_completed self g rn c = Inr True \<longleftrightarrow>
     (\<exists>kvs d v. data self g (Some rn) = JObj kvs \<and> map_of kvs ''data'' = Some (JObj d) \<and>
        map_of d ''last_completed_request'' = Some v \<and> py_eq_int v c)"
proof
  assume t: "navigation_completed self g rn c = Inr True"
  then obtain d where d: "get_py (data self g (Some rn)) ''data'' = Inr d" "d \<noteq> JNull"
    by (auto simp: navigation_completed_def Let_def split: if_splits sum.splits)
  with t obtain v where v: "subscript d ''last_completed_request'' = Inr v" "py_eq_int v c"
    by (auto simp: navigation_completed_def Let_def split: if_splits sum.splits)
  from d v show "\<exists>kvs d v. data self g (Some rn) = JObj kvs \<and> map_of kvs ''data'' = Some (JObj d) \<and>
        map_of d ''last_completed_request'' = Some v \<and> py_eq_int v c"
    by (auto simp: subscript_Inr get_py_Inr)
next
  assume "\<exists>kvs d v. data self g (Some rn) = JObj kvs \<and> map_of kvs ''data'' = Some (JObj d) \<and>
        map_of d ''last_completed_request'' = Some v \<and> py_eq_int v c"
  then show "navigation_completed self g rn c = Inr True"
    by (auto simp: navigation_completed_def Let_def)
qed

lemma polls_nth:
  "i < length gs \<Longrightarrow> polls self gs rn c ! i = navigation_completed self (gs ! i) rn c"
  by (induction gs arbitrary: i) (auto simp: nth_Cons split: nat.split)

lemma length_polls: "length (polls self gs rn c) = length gs"
  by (induction gs) auto

text \<open>
  C10. \<^verbatim>\<open>process_completed\<close> gives exactly the result of \<^verbatim>\<open>navigation_completed\<close> for
  the same robot, command id and responder state: it is the same comparison of the
  snapshot's last completed request.
\<close>

theorem process_completed_eq_navigation_completed:
  "process_completed self http_get robot_name cmd_id =
   navigation_completed self http_get robot_name cmd_id"
  by (simp add: process_completed_def)

text \<open>
  C4. The claim: when the status is fetched and its data record has no last-completed
  field, \<^verbatim>\<open>navigation_completed\<close> returns false and does not raise. The code indexes
  \<^verbatim>\<open>data['last_completed_request']\<close>: for a data record without that key the call
  raises \<^verbatim>\<open>KeyError\<close>.
\<close>

theorem navigation_completed_missing_field_raises:
  "navigation_completed api0
     (responder (status_with [(''robot_name'', JStr ''robot1''), (''battery'', JInt 100)]))
     ''robot1'' 42 = Inl KeyError"
  by (simp add: navigation_completed_def data_responder status_with_def)

text \<open>A field that is present and holds \<^verbatim>\<open>None\<close> compares unequal: the result is false.\<close>

lemma navigation_completed_null_field:
  "navigation_completed self
     (responder (status_with [(''last_completed_request'', JNull)])) rn c = Inr False"
  by (simp add: navigation_completed_def data_responder status_with_def py_eq_int_def)

text \<open>
  C5, as stated: false when no snapshot is available; over any sequence of polls, true at
  the first poll whose snapshot has the queried id as last completed request, and true at
  every later poll. The second half fails: a later snapshot that reports another id makes
  the result false again.
\<close>

theorem polls_remain_true_counterexample:
  "polls api0
     [responder (status_with [(''last_completed_request'', JInt 1)]),
      responder (status_with [(''last_completed_request'', JInt 2)])]
     ''robot1'' 1 = [Inr True, Inr False]"
  by (simp add: navigation_completed_def data_responder status_with_def py_eq_int_def)

text \<open>
  C5, amended: \<^verbatim>\<open>navigation_completed\<close> is false when no snapshot is available, and in
  any sequence of polls each poll is true exactly when its own snapshot carries a data
  record whose last completed request equals the queried id. So it is true at the first
  such poll and at every later poll whose snapshot still reports that id.
\<close>

theorem navigation_completed_level_triggered:
  "(data self g (Some rn) = JNull \<longrightarrow> navigation_completed self g rn c = Inr False) \<and>
   length (polls self gs rn c) = length gs \<and>
   (\<forall>i < length gs.
      (polls self gs rn c ! i = Inr True) =
      (\<exists>kvs d v. data self (gs ! i) (Some rn) = JObj kvs \<and>
         map_of kvs ''data'' = Some (JObj d) \<and>
         map_of d ''last_completed_request'' = Some v \<and> py_eq_int v c))"
proof (intro conjI impI allI)
  assume "data self g (Some rn) = JNull"
  then show "navigation_completed self g rn c = Inr False"
    by (simp add: navigation_completed_def)
next
  show "length (polls self gs rn c) = length gs" by (rule length_polls)
next
  fix i assume "i < length gs"
  then show "(polls self gs rn c ! i = Inr True) =
      (\<exists>kvs d v. data self (gs ! i) (Some rn) = JObj kvs \<and>
         map_of kvs ''data'' = Some (JObj d) \<and>
         map_of d ''last_completed_request'' = Some v \<and> py_eq_int v c)"
    by (simp only: polls_nth navigation_completed_True_iff)
qed

theorem navigation_completed_level_triggered_witness:
  "data api0 unreachable (Some ''robot1'') = JNull \<and>
   navigation_completed api0 unreachable ''robot1'' 1 = Inr False \<and>
   (2::nat) < length [unreachable,
                      responder (status_with [(''last_completed_request'', JInt 1)]),
                      responder (status_with [(''last_completed_request'', JInt 1)])] \<and>
   polls api0 [unreachable,
               responder (status_with [(''last_completed_request'', JInt 1)]),
               responder (status_with [(''last_completed_request'', JInt 1)])] ''robot1'' 1
     = [Inr False, Inr True, Inr True]"
  using navigation_completed_level_triggered
    [of api0 unreachable "''robot1''" 1
        "[unreachable,
          responder (status_with [(''last_completed_request'', JInt 1)]),
          responder (status_with [(''last_completed_request'', JInt 1)])]"]
  by (simp add: navigation_completed_def data_responder data_unreachable status_with_def
        py_eq_int_def)

text \<open>
  C6. For a snapshot with a data record: \<^verbatim>\<open>navigation_remaining_duration\<close> returns
  \<^verbatim>\<open>None\<close> when the arrival estimate is missing, and when the estimate's command id
  differs from the queried id (whatever duration it carries); when the ids are equal it
  returns the estimate's duration; and whenever it returns a value other than
  \<^verbatim>\<open>None\<close>, that value is the duration of an estimate whose command id equals the
  queried id.
\<close>

theorem navigation_remaining_duration_matches:
  assumes "data self g (Some rn) = JObj kvs" and "map_of kvs ''data'' = Some (JObj d)"
  shows "(map_of d ''destination_arrival'' = None \<or> map_of d ''destination_arrival'' = Some JNull
            \<longrightarrow> navigation_remaining_duration self g rn c = Inr JNull)
       \<and> (\<forall>a. map_of d ''destination_arrival'' = Some (JObj a) \<and>
                (map_of a ''cmd_id'' = None \<or>
                 (\<exists>i. map_of a ''cmd_id'' = Some i \<and> \<not> py_eq_int i c))
            \<longrightarrow> navigation_remaining_duration self g rn c = Inr JNull)
       \<and> (\<forall>a i. map_of d ''destination_arrival'' = Some (JObj a) \<and>
                map_of a ''cmd_id'' = Some i \<and> py_eq_int i c
            \<longrightarrow> navigation_remaining_duration self g rn c = get_py (JObj a) ''duration'')
       \<and> (\<forall>v. navigation_remaining_duration self g rn c = Inr v \<and> v \<noteq> JNull
            \<longrightarrow> (\<exists>a i. map_of d ''destination_arrival'' = Some (JObj a) \<and>
                   map_of a ''cmd_id'' = Some i \<and> py_eq_int i c \<and>
                   map_of a ''duration'' = Some v))"
proof (intro conjI allI impI)
  assume "map_of d ''destination_arrival'' = None \<or> map_of d ''destination_arrival'' = Some JNull"
  with assms show "navigation_remaining_duration self g rn c = Inr JNull"
    by (auto simp: navigation_remaining_duration_def)
next
  fix a
  assume "map_of d ''destination_arrival'' = Some (JObj a) \<and>
          (map_of a ''cmd_id'' = None \<or> (\<exists>i. map_of a ''cmd_id'' = Some i \<and> \<not> py_eq_int i c))"
  with assms show "navigation_remaining_duration self g rn c = Inr JNull"
    by (auto simp: navigation_remaining_duration_def py_eq_int_def)
next
  fix a i
  assume "map_of d ''destination_arrival'' = Some (JObj a) \<and>
          map_of a ''cmd_id'' = Some i \<and> py_eq_int i c"
  with assms show "navigation_remaining_duration self g rn c = get_py (JObj a) ''duration''"
    by (auto simp: navigation_remaining_duration_def)
next
  fix v
  assume v: "navigation_remaining_duration self g rn c = Inr v \<and> v \<noteq> JNull"
  with assms obtain arr where arr: "get_py (JObj d) ''destination_arrival'' = Inr arr" "arr \<noteq> JNull"
    by (auto simp: navigation_remaining_duration_def split: if_splits sum.splits)
  from v assms arr obtain i where i: "get_py arr ''cmd_id'' = Inr i" "py_eq_int i c"
    by (auto simp: navigation_remaining_duration_def split: if_splits sum.splits)
  from v assms arr i have dur: "get_py arr ''duration'' = Inr v"
    by (auto simp: navigation_remaining_duration_def split: if_splits sum.splits)
  from i(2) have "i \<noteq> JNull" by (auto simp: py_eq_int_def)
  with arr i dur v show "\<exists>a i. map_of d ''destination_arrival'' = Some (JObj a) \<and>
                   map_of a ''cmd_id'' = Some i \<and> py_eq_int i c \<and>
                   map_of a ''duration'' = Some v"
    by (auto simp: get_py_Inr split: option.splits)
qed

theorem navigation_remaining_duration_matches_witness:
  "data api0
     (responder (status_with [(''destination_arrival'',
         JObj [(''cmd_id'', JInt 7), (''duration'', JFloat 12.5)])]))
     (Some ''robot1'') =
   JObj [(''success'', JBool True),
         (''data'', JObj [(''destination_arrival'',
            JObj [(''cmd_id'', JInt 7), (''duration'', JFloat 12.5)])])] \<and>
   navigation_remaining_duration api0
     (responder (status_with [(''destination_arrival'',
         JObj [(''cmd_id'', JInt 7), (''duration'', JFloat 12.5)])]))
     ''robot1'' 8 = Inr JNull \<and>
   navigation_remaining_duration api0
     (responder (status_with [(''destination_arrival'',
         JObj [(''cmd_id'', JInt 7), (''duration'', JFloat 12.5)])]))
     ''robot1'' 7 = Inr (JFloat 12.5) \<and>
   navigation_remaining_duration api0
     (responder (status_with [(''battery'', JInt 100)])) ''robot1'' 7 = Inr JNull"
proof -
  have s1: "data api0
     (responder (status_with [(''destination_arrival'',
         JObj [(''cmd_id'', JInt 7), (''duration'', JFloat 12.5)])]))
     (Some ''robot1'') =
   JObj [(''success'', JBool True),
         (''data'', JObj [(''destination_arrival'',
            JObj [(''cmd_id'', JInt 7), (''duration'', JFloat 12.5)])])]"
    by (simp add: data_responder status_with_def)
  have s2: "data api0 (responder (status_with [(''battery'', JInt 100)])) (Some ''robot1'') =
    JObj [(''success'', JBool True), (''data'', JObj [(''battery'', JInt 100)])]"
    by (simp add: data_responder status_with_def)
  have m1: "map_of [(''success'', JBool True),
         (''data'', JObj [(''destination_arrival'',
            JObj [(''cmd_id'', JInt 7), (''duration'', JFloat 12.5)])])] ''data'' =
     Some (JObj [(''destination_arrival'',
            JObj [(''cmd_id'', JInt 7), (''duration'', JFloat 12.5)])])"
    by simp
  have m2: "map_of [(''success'', JBool True), (''data'', JObj [(''battery'', JInt 100)])] ''data''
      = Some (JObj [(''battery'', JInt 100)])"
    by simp
  from navigation_remaining_duration_matches[OF s1 m1, of 8]
  have "navigation_remaining_duration api0
     (responder (status_with [(''destination_arrival'',
         JObj [(''cmd_id'', JInt 7), (''duration'', JFloat 12.5)])]))
     ''robot1'' 8 = Inr JNull"
    by (simp add: py_eq_int_def)
  moreover from navigation_remaining_duration_matches[OF s1 m1, of 7]
  have "navigation_remaining_duration api0
     (responder (status_with [(''destination_arrival'',
         JObj [(''cmd_id'', JInt 7), (''duration'', JFloat 12.5)])]))
     ''robot1'' 7 = Inr (JFloat 12.5)"
    by (simp add: py_eq_int_def)
  moreover from navigation_remaining_duration_matches[OF s2 m2, of 7]
  have "navigation_remaining_duration api0
     (responder (status_with [(''battery'', JInt 100)])) ''robot1'' 7 = Inr JNull"
    by simp
  ultimately show ?thesis using s1 by simp
qed

text \<open>
  C7. A call of \<^verbatim>\<open>navigate\<close> whose request is made (the pose has its three
  coordinates) never raises, and it returns \<^verbatim>\<open>False\<close> when the request raises
  (transport or encoding failure), the status is bad, the body does not decode, the
  \<^verbatim>\<open>'success'\<close> field cannot be read, or the responder answers
  \<^verbatim>\<open>{success: false}\<close>.
\<close>

theorem navigate_failure_not_accepted:
  assumes "length pose > 2"
    and "res = http_post (navigate_url self rn c) (navigate_payload pose m sl)"
  shows "(\<exists>v. navigate self http_post rn c pose m sl = Inr v)
       \<and> (res = Raises \<or> (\<exists>b. res = Response False b) \<or> res = Response True None
            \<or> (\<exists>j. res = Response True (Some j) \<and>
                 (subscript j ''success'' = Inr (JBool False) \<or>
                  (\<exists>e. subscript j ''success'' = Inl e)))
          \<longrightarrow> navigate self http_post rn c pose m sl = Inr (JBool False))"
  using assms
  by (auto simp: navigate_def split: http_result.splits option.splits sum.splits)

theorem navigate_failure_not_accepted_witness:
  "length [JInt 1, JInt 2, JInt 0] > 2 \<and>
   post_responder (JObj [(''success'', JBool False)])
     (navigate_url api0 ''robot1'' 42) (navigate_payload [JInt 1, JInt 2, JInt 0] ''L1'' 0)
     = Response True (Some (JObj [(''success'', JBool False)])) \<and>
   subscript (JObj [(''success'', JBool False)]) ''success'' = Inr (JBool False) \<and>
   navigate api0 (post_responder (JObj [(''success'', JBool False)])) ''robot1'' 42
     [JInt 1, JInt 2, JInt 0] ''L1'' 0 = Inr (JBool False)"
proof -
  have l: "length [JInt 1, JInt 2, JInt 0] > 2" by simp
  have p: "Response True (Some (JObj [(''success'', JBool False)])) =
      post_responder (JObj [(''success'', JBool False)])
        (navigate_url api0 ''robot1'' 42) (navigate_payload [JInt 1, JInt 2, JInt 0] ''L1'' 0)"
    by (simp add: post_responder_def)
  from navigate_failure_not_accepted
         [where pose = "[JInt 1, JInt 2, JInt 0]"
            and http_post = "post_responder (JObj [(''success'', JBool False)])"
            and self = api0 and rn = "''robot1''" and c = 42 and m = "''L1''" and sl = 0,
          OF l p]
  show ?thesis by (simp add: post_responder_def)
qed

text \<open>The URL of that request.\<close>

lemma navigate_url_example:
  "navigate_url api0 ''robot1'' 42 =
     ''http://127.0.0.1:22011/open-rmf/rmf_demos_fm/navigate/?robot_name=robot1&cmd_id=42''"
  by code_simp

text \<open>
  C9. The claim: when the status fetch succeeds and the data record has no position
  field, \<^verbatim>\<open>position\<close> returns \<^verbatim>\<open>None\<close> instead of crashing. The code indexes
  \<^verbatim>\<open>response['data']['position']\<close>: without that key the call raises \<^verbatim>\<open>KeyError\<close>,
  before any beacon is updated.
\<close>

theorem position_missing_field_raises:
  "position fl api0
     (responder (status_with [(''robot_name'', JStr ''robot1''), (''battery'', JInt 100)]))
     ''robot1'' = (Inl KeyError, [], api0)"
  by (simp add: position_def data_responder status_with_def)

text \<open>With the position present the call returns the pose and updates the beacons.\<close>

lemma position_example:
  "fst (position fl api0
     (responder (status_with [(''position'',
         JObj [(''x'', JFloat 1.5), (''y'', JInt 2), (''yaw'', JInt 0)])]))
     ''robot1'') = Inr (JArr [JFloat 1.5, JInt 2, JInt 0])"
  by (simp add: position_def data_responder status_with_def update_beacon_def api0_def)

section \<open>Properties of beacon signalling\<close>

lemma float_lt_asym: "float_lt a b \<Longrightarrow> \<not> float_lt b a"
  by (cases a; cases b) auto

lemma float_lt_not_gt: "float_lt a b \<Longrightarrow> \<not> float_gt a b"
  by (simp add: float_gt_def float_lt_asym)

lemma float_gt_Finite [simp]: "float_gt (Finite x) (Finite y) = (y < x)"
  by (simp add: float_gt_def)

lemma beacon_body_Inr:
  "dist_py fl (beacon_loc bd) P = Inr d \<Longrightarrow>
   beacon_body fl \<rho> R P k bd =
     Inr (if current_robot bd = Some R \<and> float_gt d (Finite \<rho>) then ([beacon_off k, SetOccupant k None], bd\<lparr>current_robot := None\<rparr>)
          else if float_lt d (Finite \<rho>) then ([beacon_on k, SetOccupant k (Some R)], bd\<lparr>current_robot := Some R\<rparr>)
          else ([], bd))"
  using float_lt_asym[of d "Finite \<rho>"] by (auto simp: beacon_body_def float_gt_def)

lemma beacon_body_Inl: "dist_py fl (beacon_loc bd) P = Inl e \<Longrightarrow> beacon_body fl \<rho> R P k bd = Inl e"
  by (simp add: beacon_body_def)

lemma beacon_body_cases:
  assumes "beacon_body fl \<rho> R P k bd = Inr (t, bd')"
  shows "(t = [] \<and> bd' = bd) \<or>
         (t = [beacon_off k, SetOccupant k None] \<and> bd' = bd\<lparr>current_robot := None\<rparr>) \<or>
         (t = [beacon_on k, SetOccupant k (Some R)] \<and> bd' = bd\<lparr>current_robot := Some R\<rparr>)"
proof (cases "dist_py fl (beacon_loc bd) P")
  case (Inl e)
  with assms show ?thesis by (simp add: beacon_body_Inl)
next
  case (Inr d)
  with assms show ?thesis by (auto simp: beacon_body_Inr split: if_splits)
qed

lemma about_on [simp]: "about b (beacon_on k) \<longleftrightarrow> k = b"
  by (auto simp: about_def beacon_on_def beacon_off_def)

lemma about_off [simp]: "about b (beacon_off k) \<longleftrightarrow> k = b"
  by (auto simp: about_def beacon_on_def beacon_off_def)

lemma about_set [simp]: "about b (SetOccupant k v) \<longleftrightarrow> k = b"
  by (auto simp: about_def beacon_on_def beacon_off_def)

lemma beacon_body_other:
  assumes "beacon_body fl \<rho> R P k bd = Inr (t, bd')" and "k \<noteq> b"
  shows "filter (about b) t = []"
  using beacon_body_cases[OF assms(1)] assms(2) by auto

lemma beacon_body_self:
  assumes "beacon_body fl \<rho> R P b bd = Inr (t, bd')"
  shows "filter (about b) t = t"
  using beacon_body_cases[OF assms(1)] by auto

lemma beacon_loop_keys:
  "beacon_loop fl \<rho> R P items = (r, tr, items') \<Longrightarrow> map fst items' = map fst items"
proof (induction items arbitrary: r tr items')
  case Nil
  then show ?case by simp
next
  case (Cons it items)
  obtain k bd where it: "it = (k, bd)" by (cases it)
  show ?case
  proof (cases "beacon_body fl \<rho> R P k bd")
    case (Inl e)
    with Cons.prems it show ?thesis by auto
  next
    case (Inr res)
    obtain t bd' where res: "res = (t, bd')" by (cases res)
    obtain r1 tr1 items1 where rec: "beacon_loop fl \<rho> R P items = (r1, tr1, items1)"
      by (cases "beacon_loop fl \<rho> R P items")
    from Cons.IH[OF rec] Cons.prems it Inr res rec show ?thesis by auto
  qed
qed

lemma beacon_loop_untouched:
  "beacon_loop fl \<rho> R P items = (r, tr, items') \<Longrightarrow> b \<notin> fst ` set items \<Longrightarrow>
     filter (about b) tr = []"
proof (induction items arbitrary: r tr items')
  case Nil
  then show ?case by simp
next
  case (Cons it items)
  obtain k bd where it: "it = (k, bd)" by (cases it)
  from Cons.prems it have kb: "k \<noteq> b" and nb: "b \<notin> fst ` set items" by auto
  show ?case
  proof (cases "beacon_body fl \<rho> R P k bd")
    case (Inl e)
    with Cons.prems it show ?thesis by auto
  next
    case (Inr res)
    obtain t bd' where res: "res = (t, bd')" by (cases res)
    obtain r1 tr1 items1 where rec: "beacon_loop fl \<rho> R P items = (r1, tr1, items1)"
      by (cases "beacon_loop fl \<rho> R P items")
    from Inr res have "filter (about b) t = []" using beacon_body_other kb by blast
    moreover from Cons.IH[OF rec nb] have "filter (about b) tr1 = []" .
    moreover from Cons.prems it Inr res rec have "tr = t @ tr1" by auto
    ultimately show ?thesis by simp
  qed
qed

lemma beacon_loop_entry:
  assumes "beacon_loop fl \<rho> R P items = (r, tr, items')"
    and "distinct (map fst items)" and "(b, bd) \<in> set items"
  shows "(\<exists>t bd'. beacon_body fl \<rho> R P b bd = Inr (t, bd') \<and> map_of items' b = Some bd' \<and>
            filter (about b) tr = t)
       \<or> (r \<noteq> None \<and> map_of items' b = Some bd \<and> filter (about b) tr = [])"
  using assms
proof (induction items arbitrary: r tr items')
  case Nil
  then show ?case by simp
next
  case (Cons it items)
  obtain k bd0 where it: "it = (k, bd0)" by (cases it)
  show ?case
  proof (cases "beacon_body fl \<rho> R P k bd0")
    case (Inl e)
    with Cons.prems it have "r = Some e" "tr = []" "items' = (k, bd0) # items" by auto
    moreover from Cons.prems(2,3) it have "map_of ((k, bd0) # items) b = Some bd"
      by (metis map_of_eq_Some_iff)
    ultimately show ?thesis by simp
  next
    case (Inr res)
    obtain t bd' where res: "res = (t, bd')" by (cases res)
    obtain r1 tr1 items1 where rec: "beacon_loop fl \<rho> R P items = (r1, tr1, items1)"
      by (cases "beacon_loop fl \<rho> R P items")
    from Cons.prems(1) it Inr res rec
    have eqs: "r = r1" "tr = t @ tr1" "items' = (k, bd') # items1" by auto
    show ?thesis
    proof (cases "k = b")
      case True
      with Cons.prems(2,3) it have bd: "bd0 = bd" and nb: "b \<notin> fst ` set items"
        by (auto simp: rev_image_eqI)
      from beacon_loop_untouched[OF rec nb] have "filter (about b) tr1 = []" .
      moreover from Inr res True bd have "filter (about b) t = t"
        using beacon_body_self by blast
      ultimately show ?thesis using eqs True bd Inr res by simp
    next
      case False
      with Cons.prems(2,3) it have d: "distinct (map fst items)" and m: "(b, bd) \<in> set items"
        by auto
      from Inr res False have "filter (about b) t = []" using beacon_body_other by blast
      with Cons.IH[OF rec d m] eqs False show ?thesis by auto
    qed
  qed
qed

lemma beacon_loop_completes:
  assumes "\<forall>(k, bd) \<in> set items. \<exists>d. dist_py fl (beacon_loc bd) P = Inr d"
  shows "fst (beacon_loop fl \<rho> R P items) = None"
  using assms
proof (induction items)
  case Nil
  then show ?case by simp
next
  case (Cons it items)
  obtain k bd where it: "it = (k, bd)" by (cases it)
  with Cons.prems obtain d where d: "dist_py fl (beacon_loc bd) P = Inr d" by auto
  from Cons have "fst (beacon_loop fl \<rho> R P items) = None" by simp
  then obtain tr1 items1 where "beacon_loop fl \<rho> R P items = (None, tr1, items1)"
    by (cases "beacon_loop fl \<rho> R P items") auto
  with it d show ?case
    by (simp add: beacon_body_Inr)
qed

lemma beacon_loop_blocks:
  "beacon_loop fl \<rho> R P items = (r, tr, items') \<Longrightarrow>
   \<exists>blocks. tr = concat blocks \<and>
      (\<forall>blk \<in> set blocks. \<exists>k. blk = [beacon_off k, SetOccupant k None] \<or>
                               blk = [beacon_on k, SetOccupant k (Some R)])"
proof (induction items arbitrary: r tr items')
  case Nil
  then have "tr = concat []" by simp
  then show ?case by (intro exI[of _ "[]"]) simp
next
  case (Cons it items)
  obtain k bd where it: "it = (k, bd)" by (cases it)
  show ?case
  proof (cases "beacon_body fl \<rho> R P k bd")
    case (Inl e)
    with Cons.prems it have "tr = concat []" by auto
    then show ?thesis by (intro exI[of _ "[]"]) simp
  next
    case (Inr res)
    obtain t bd' where res: "res = (t, bd')" by (cases res)
    obtain r1 tr1 items1 where rec: "beacon_loop fl \<rho> R P items = (r1, tr1, items1)"
      by (cases "beacon_loop fl \<rho> R P items")
    from Cons.prems it Inr res rec have tr: "tr = t @ tr1" by auto
    from Cons.IH[OF rec] obtain blocks where b: "tr1 = concat blocks"
      "\<forall>blk \<in> set blocks. \<exists>k. blk = [beacon_off k, SetOccupant k None] \<or>
                               blk = [beacon_on k, SetOccupant k (Some R)]" by blast
    from Inr res beacon_body_cases consider "t = []" | "t = [beacon_off k, SetOccupant k None]"
      | "t = [beacon_on k, SetOccupant k (Some R)]" by blast
    then show ?thesis
    proof cases
      case 1
      with tr b show ?thesis by auto
    next
      case 2
      with tr b have "tr = concat (t # blocks)" by simp
      moreover from 2 b(2) have "\<forall>blk \<in> set (t # blocks). \<exists>k. blk = [beacon_off k, SetOccupant k None] \<or>
                               blk = [beacon_on k, SetOccupant k (Some R)]" by auto
      ultimately show ?thesis by blast
    next
      case 3
      with tr b have "tr = concat (t # blocks)" by simp
      moreover from 3 b(2) have "\<forall>blk \<in> set (t # blocks). \<exists>k. blk = [beacon_off k, SetOccupant k None] \<or>
                               blk = [beacon_on k, SetOccupant k (Some R)]" by auto
      ultimately show ?thesis by blast
    qed
  qed
qed

lemma count_list_filter: "count_list (filter Q xs) x = (if Q x then count_list xs x else 0)"
  by (induction xs) auto

lemma update_beacon_visit:
  assumes "update_beacon fl self R P = (r, tr, self')"
    and "distinct (map fst (beacons self))" and "(b, bd) \<in> set (beacons self)"
  shows "(\<exists>t bd'. mqtt_client self \<noteq> None \<and>
            beacon_body fl (beacon_radius self) R P b bd = Inr (t, bd') \<and>
            map_of (beacons self') b = Some bd' \<and> filter (about b) tr = t)
       \<or> ((r \<noteq> None \<or> mqtt_client self = None) \<and> map_of (beacons self') b = Some bd \<and>
            filter (about b) tr = [])"
proof (cases "mqtt_client self")
  case None
  with assms(1) have "tr = []" "self' = self" by (auto simp: update_beacon_def)
  moreover from assms(2,3) have "map_of (beacons self) b = Some bd" by simp
  ultimately show ?thesis using None by simp
next
  case (Some c)
  obtain r1 tr1 items1 where
    loop: "beacon_loop fl (beacon_radius self) R P (beacons self) = (r1, tr1, items1)"
    by (cases "beacon_loop fl (beacon_radius self) R P (beacons self)")
  with assms(1) Some have eqs: "r = r1" "tr = tr1" "beacons self' = items1"
    by (auto simp: update_beacon_def)
  from beacon_loop_entry[OF loop assms(2,3)] eqs Some show ?thesis by auto
qed

lemma update_beacon_returns:
  assumes "\<forall>(k, e) \<in> set (beacons self). \<exists>d. dist_py fl (beacon_loc e) P = Inr d"
  shows "fst (update_beacon fl self R P) = None"
  using beacon_loop_completes[OF assms, of "beacon_radius self" R]
  by (auto simp: update_beacon_def split: option.splits prod.splits)

lemma apply_effect_other:
  "k \<notin> fst ` set items \<Longrightarrow> apply_effect (SetOccupant k v) items = items"
  by (induction items) auto

lemma apply_effect_publish_on [simp]: "apply_effect (beacon_on k) items = items"
  by (simp add: beacon_on_def)

lemma apply_effect_publish_off [simp]: "apply_effect (beacon_off k) items = items"
  by (simp add: beacon_off_def)

lemma fold_apply_effect_skip:
  "\<forall>e \<in> set tr. \<not> about k e \<Longrightarrow>
   fold apply_effect tr ((k, x) # items) = (k, x) # fold apply_effect tr items"
proof (induction tr arbitrary: items)
  case Nil
  then show ?case by simp
next
  case (Cons e tr)
  then have e: "\<not> about k e" and rest: "\<forall>e \<in> set tr. \<not> about k e" by auto
  from e have "apply_effect e ((k, x) # items) = (k, x) # apply_effect e items"
    by (cases e) (auto simp: about_def)
  with Cons.IH[OF rest] show ?case by simp
qed

lemma beacon_body_replay:
  assumes "beacon_body fl \<rho> R P k bd = Inr (t, bd')" and "k \<notin> fst ` set items"
  shows "fold apply_effect t ((k, bd) # items) = (k, bd') # items"
proof -
  have w: "apply_effect (SetOccupant k v) ((k, bd) # items) = (k, bd\<lparr>current_robot := v\<rparr>) # items"
    for v
    using apply_effect_other[OF assms(2), of v] by simp
  from beacon_body_cases[OF assms(1)] show ?thesis
    by (elim disjE conjE) (simp_all add: w del: apply_effect.simps(2))
qed

text \<open>
  The beacons after the loop are the beacons before it with the writes of the effect
  sequence applied through the dictionary, in order: visiting each entry in place and
  assigning to \<^verbatim>\<open>self.beacons[beacon_id][1]\<close> are the same.
\<close>

lemma beacon_loop_replay:
  "distinct (map fst items) \<Longrightarrow> beacon_loop fl \<rho> R P items = (r, tr, items') \<Longrightarrow>
   items' = fold apply_effect tr items"
proof (induction items arbitrary: r tr items')
  case Nil
  then show ?case by simp
next
  case (Cons it items)
  obtain k bd where it: "it = (k, bd)" by (cases it)
  from Cons.prems(1) it have nk: "k \<notin> fst ` set items" and d: "distinct (map fst items)"
    by auto
  show ?case
  proof (cases "beacon_body fl \<rho> R P k bd")
    case (Inl e)
    with Cons.prems(2) it show ?thesis by auto
  next
    case (Inr res)
    obtain t bd' where res: "res = (t, bd')" by (cases res)
    obtain r1 tr1 items1 where rec: "beacon_loop fl \<rho> R P items = (r1, tr1, items1)"
      by (cases "beacon_loop fl \<rho> R P items")
    from Cons.prems(2) it Inr res rec
    have eqs: "tr = t @ tr1" "items' = (k, bd') # items1" by auto
    from Inr res have a: "fold apply_effect t ((k, bd) # items) = (k, bd') # items"
      using beacon_body_replay nk by blast
    from beacon_loop_untouched[OF rec nk] have "\<forall>e \<in> set tr1. \<not> about k e"
      by (simp add: filter_empty_conv)
    then have b: "fold apply_effect tr1 ((k, bd') # items) = (k, bd') # fold apply_effect tr1 items"
      by (rule fold_apply_effect_skip)
    from Cons.IH[OF d rec] a b eqs it show ?thesis by simp
  qed
qed

lemma update_beacon_replay:
  assumes "distinct (map fst (beacons self))" and "update_beacon fl self R P = (r, tr, self')"
  shows "self' = self\<lparr>beacons := fold apply_effect tr (beacons self)\<rparr>"
proof (cases "mqtt_client self")
  case None
  with assms(2) show ?thesis by (auto simp: update_beacon_def)
next
  case (Some c)
  obtain r1 tr1 items1 where
    loop: "beacon_loop fl (beacon_radius self) R P (beacons self) = (r1, tr1, items1)"
    by (cases "beacon_loop fl (beacon_radius self) R P (beacons self)")
  from beacon_loop_replay[OF assms(1) loop] assms(2) Some loop show ?thesis
    by (auto simp: update_beacon_def)
qed

text \<open>What the two closures publish, written out.\<close>

lemma beacon_on_eq:
  "beacon_on b =
     Publish (''cgh/'' @ b @ ''/toggle_beacon_topic'')
       (JObj [(''id'', JStr b), (''toggle'', JInt 1)])"
  by (simp add: beacon_on_def)

lemma beacon_off_eq:
  "beacon_off b =
     Publish (''cgh/'' @ b @ ''/toggle_beacon_topic'')
       (JObj [(''id'', JStr b), (''toggle'', JInt 0)])"
  by (simp add: beacon_off_def)

text \<open>
  An exception of \<^verbatim>\<open>_dist\<close> leaves \<^verbatim>\<open>update_beacon\<close>: here at the first beacon, before
  anything is published or written. A float whose square overflows is one such case.
\<close>

lemma update_beacon_raises:
  assumes "mqtt_client self = Some c" and "beacons self = (k, bd) # rest"
    and "dist_py fl (beacon_loc bd) P = Inl e"
  shows "update_beacon fl self R P = (Some e, [], self)"
  using assms by (simp add: update_beacon_def beacon_body_Inl)

lemma dist_py_overflow:
  assumes "float_sub fl (Finite x) (Finite y) = Inr z" and "float_pow2 fl z = Inl OverflowError"
  shows "dist_py fl [JFloat x, JFloat 0] [JFloat y, JFloat 0] = Inl OverflowError"
  using assms by (simp add: dist_py_def py_sub_def and_then_def)

lemma sqrt_25: "sqrt 25 = 5"
  using real_sqrt_abs[of 5] by simp

lemma dist_examples:
  "dist_py exact_ops [JInt 0, JInt 0] [JInt 1, JInt 0] = Inr (Finite 1)"
  "dist_py exact_ops [JInt 3, JInt 0] [JInt 1, JInt 0] = Inr (Finite 2)"
  "dist_py exact_ops [JInt 0, JInt 0] [JInt 2, JInt 0] = Inr (Finite 2)"
  "dist_py exact_ops [JInt 3, JInt 0] [JInt 2, JInt 0] = Inr (Finite 1)"
  "dist_py exact_ops [JInt 0, JInt 0] [JInt 5, JInt 0] = Inr (Finite 5)"
  "dist_py exact_ops [JInt 3, JInt 0] [JInt 5, JInt 0] = Inr (Finite 2)"
  by (simp_all add: dist_py_def py_sub_def math_sqrt_def and_then_def exact_ops_def sqrt_25)

lemma run_inside:
  "update_beacon exact_ops (api1 occ) ''robotA'' [JInt 1, JInt 0] =
     (None, [beacon_on ''b1'', SetOccupant ''b1'' (Some ''robotA'')], api1 (Some ''robotA''))"
  by (simp add: update_beacon_def api1_def beacon_body_Inr dist_examples float_gt_def)

lemma run_boundary:
  "update_beacon exact_ops (api1 occ) ''robotA'' [JInt 2, JInt 0] =
     (None, [beacon_on ''b2'', SetOccupant ''b2'' (Some ''robotA'')],
      (api1 occ)\<lparr>beacons :=
         [(''b1'', \<lparr>beacon_loc = [JInt 0, JInt 0], current_robot = occ\<rparr>),
          (''b2'', \<lparr>beacon_loc = [JInt 3, JInt 0], current_robot = Some ''robotA''\<rparr>)]\<rparr>)"
  by (simp add: update_beacon_def api1_def beacon_body_Inr dist_examples float_gt_def)

lemma run_outside:
  "update_beacon exact_ops (api1 (Some ''robotA'')) ''robotA'' [JInt 5, JInt 0] =
     (None, [beacon_off ''b1'', SetOccupant ''b1'' None], api1 None)"
  by (simp add: update_beacon_def api1_def beacon_body_Inr dist_examples float_gt_def)

lemma run_outside_idle:
  "update_beacon exact_ops (api1 None) ''robotA'' [JInt 5, JInt 0] = (None, [], api1 None)"
  by (simp add: update_beacon_def api1_def beacon_body_Inr dist_examples float_gt_def)

text \<open>
  The scenario of the specification: the robot at \<open>(5, 0)\<close>, then \<open>(1, 0)\<close>, then
  \<open>(5, 0)\<close>. Nothing, then ON with \<open>robotA\<close> as occupant, then OFF with no occupant
  (\<open>b2\<close> is at the boundary distance both times and stays silent).
\<close>

lemma scenario:
  "update_beacon exact_ops (api1 None) ''robotA'' [JInt 5, JInt 0] = (None, [], api1 None) \<and>
   update_beacon exact_ops (api1 None) ''robotA'' [JInt 1, JInt 0] =
     (None, [beacon_on ''b1'', SetOccupant ''b1'' (Some ''robotA'')], api1 (Some ''robotA'')) \<and>
   update_beacon exact_ops (api1 (Some ''robotA'')) ''robotA'' [JInt 5, JInt 0] =
     (None, [beacon_off ''b1'', SetOccupant ''b1'' None], api1 None)"
  by (simp add: run_inside run_outside run_outside_idle)

text \<open>
  C1. For a beacon \<open>b\<close> of the adapter, when the distance \<^verbatim>\<open>_dist\<close> computes between
  its location and the reported position is exactly the alert radius, one call of
  \<^verbatim>\<open>update_beacon\<close> publishes neither ON nor OFF for \<open>b\<close>, writes nothing to its
  occupant and leaves its entry as it was: the exit test is \<open>d > radius\<close>, the entry test
  \<open>d < radius\<close>. This holds for every floating-point arithmetic \<open>fl\<close> of the runtime.
\<close>

theorem update_beacon_boundary:
  assumes "distinct (map fst (beacons self))"
    and "(b, bd) \<in> set (beacons self)"
    and "dist_py fl (beacon_loc bd) robot_pos = Inr (Finite (beacon_radius self))"
    and "update_beacon fl self robot_name robot_pos = (r, tr, self')"
  shows "Publish (''cgh/'' @ b @ ''/toggle_beacon_topic'')
            (JObj [(''id'', JStr b), (''toggle'', JInt 1)]) \<notin> set tr \<and>
         Publish (''cgh/'' @ b @ ''/toggle_beacon_topic'')
            (JObj [(''id'', JStr b), (''toggle'', JInt 0)]) \<notin> set tr \<and>
         SetOccupant b v \<notin> set tr \<and>
         map_of (beacons self') b = Some bd"
proof -
  from assms(3) have body:
    "beacon_body fl (beacon_radius self) robot_name robot_pos b bd = Inr ([], bd)"
    by (simp add: beacon_body_Inr)
  from update_beacon_visit[OF assms(4,1,2)] body
  have f: "filter (about b) tr = []" and m: "map_of (beacons self') b = Some bd"
    by auto
  have "\<And>x. about b x \<Longrightarrow> x \<notin> set tr"
    using f by (metis filter_empty_conv)
  with m have "beacon_on b \<notin> set tr \<and> beacon_off b \<notin> set tr \<and> SetOccupant b v \<notin> set tr \<and>
         map_of (beacons self') b = Some bd"
    by simp
  then show ?thesis by (simp add: beacon_on_eq beacon_off_eq)
qed

theorem update_beacon_boundary_witness:
  "distinct (map fst (beacons (api1 (Some ''robotA'')))) \<and>
   (''b1'', \<lparr>beacon_loc = [JInt 0, JInt 0], current_robot = Some ''robotA''\<rparr>)
      \<in> set (beacons (api1 (Some ''robotA''))) \<and>
   dist_py exact_ops [JInt 0, JInt 0] [JInt 2, JInt 0] =
      Inr (Finite (beacon_radius (api1 (Some ''robotA'')))) \<and>
   fst (snd (update_beacon exact_ops (api1 (Some ''robotA'')) ''robotA'' [JInt 2, JInt 0])) =
      [beacon_on ''b2'', SetOccupant ''b2'' (Some ''robotA'')] \<and>
   Publish ''cgh/b1/toggle_beacon_topic'' (JObj [(''id'', JStr ''b1''), (''toggle'', JInt 1)])
      \<notin> set (fst (snd (update_beacon exact_ops (api1 (Some ''robotA'')) ''robotA''
                        [JInt 2, JInt 0]))) \<and>
   Publish ''cgh/b1/toggle_beacon_topic'' (JObj [(''id'', JStr ''b1''), (''toggle'', JInt 0)])
      \<notin> set (fst (snd (update_beacon exact_ops (api1 (Some ''robotA'')) ''robotA''
                        [JInt 2, JInt 0]))) \<and>
   map_of (beacons (snd (snd (update_beacon exact_ops (api1 (Some ''robotA'')) ''robotA''
                                [JInt 2, JInt 0])))) ''b1'' =
      Some \<lparr>beacon_loc = [JInt 0, JInt 0], current_robot = Some ''robotA''\<rparr>"
proof -
  have d: "distinct (map fst (beacons (api1 (Some ''robotA''))))"
    by (simp add: api1_def)
  have m: "(''b1'', \<lparr>beacon_loc = [JInt 0, JInt 0], current_robot = Some ''robotA''\<rparr>)
      \<in> set (beacons (api1 (Some ''robotA'')))"
    by (simp add: api1_def)
  have r: "dist_py exact_ops
      (beacon_loc \<lparr>beacon_loc = [JInt 0, JInt 0], current_robot = Some ''robotA''\<rparr>)
      [JInt 2, JInt 0] = Inr (Finite (beacon_radius (api1 (Some ''robotA''))))"
    by (simp add: api1_def dist_examples)
  from update_beacon_boundary[OF d m r run_boundary, where v = None] r d m
  show ?thesis by (simp add: run_boundary)
qed

text \<open>
  C2. With beacon signalling configured and \<^verbatim>\<open>_dist\<close> returning a distance for every
  beacon (so the call returns), a beacon \<open>b\<close> whose computed distance to the position is
  less than the alert radius has ON published for it (once) and its occupant set to the
  updating robot, whatever its occupant was before. This holds for every floating-point
  arithmetic \<open>fl\<close> of the runtime; the distance is the float the code computes.
\<close>

theorem update_beacon_entry:
  assumes "mqtt_client self = Some c"
    and "distinct (map fst (beacons self))"
    and "\<forall>(k, e) \<in> set (beacons self). \<exists>d. dist_py fl (beacon_loc e) robot_pos = Inr d"
    and "(b, bd) \<in> set (beacons self)"
    and "dist_py fl (beacon_loc bd) robot_pos = Inr d"
    and "float_lt d (Finite (beacon_radius self))"
    and "update_beacon fl self robot_name robot_pos = (r, tr, self')"
  shows "r = None \<and>
         count_list tr
           (Publish (''cgh/'' @ b @ ''/toggle_beacon_topic'')
            (JObj [(''id'', JStr b), (''toggle'', JInt 1)])) = 1 \<and>
         map_of (beacons self') b = Some (bd\<lparr>current_robot := Some robot_name\<rparr>)"
proof -
  from update_beacon_returns[OF assms(3), of robot_name] assms(7) have r: "r = None" by simp
  from assms(5,6) have body: "beacon_body fl (beacon_radius self) robot_name robot_pos b bd =
      Inr ([beacon_on b, SetOccupant b (Some robot_name)], bd\<lparr>current_robot := Some robot_name\<rparr>)"
    by (simp add: beacon_body_Inr float_lt_not_gt)
  from update_beacon_visit[OF assms(7,2,4)] body r assms(1)
  have f: "filter (about b) tr = [beacon_on b, SetOccupant b (Some robot_name)]"
    and m: "map_of (beacons self') b = Some (bd\<lparr>current_robot := Some robot_name\<rparr>)"
    by auto
  have "count_list tr (beacon_on b) = count_list (filter (about b) tr) (beacon_on b)"
    by (simp add: count_list_filter)
  also have "\<dots> = 1" by (simp add: f beacon_on_def)
  finally have "count_list tr (beacon_on b) = 1" .
  with r m show ?thesis by (simp add: beacon_on_eq)
qed

theorem update_beacon_entry_witness:
  "mqtt_client (api1 (Some ''robotB'')) = Some \<lparr>name = ''MiR_Fleet'', connected = True\<rparr> \<and>
   distinct (map fst (beacons (api1 (Some ''robotB'')))) \<and>
   dist_py exact_ops [JInt 3, JInt 0] [JInt 1, JInt 0] = Inr (Finite 2) \<and>
   (''b1'', \<lparr>beacon_loc = [JInt 0, JInt 0], current_robot = Some ''robotB''\<rparr>)
      \<in> set (beacons (api1 (Some ''robotB''))) \<and>
   dist_py exact_ops [JInt 0, JInt 0] [JInt 1, JInt 0] = Inr (Finite 1) \<and>
   float_lt (Finite 1) (Finite (beacon_radius (api1 (Some ''robotB'')))) \<and>
   update_beacon exact_ops (api1 (Some ''robotB'')) ''robotA'' [JInt 1, JInt 0] =
     (None, [beacon_on ''b1'', SetOccupant ''b1'' (Some ''robotA'')], api1 (Some ''robotA'')) \<and>
   count_list [beacon_on ''b1'', SetOccupant ''b1'' (Some ''robotA'')]
     (Publish ''cgh/b1/toggle_beacon_topic'' (JObj [(''id'', JStr ''b1''), (''toggle'', JInt 1)])) = 1 \<and>
   map_of (beacons (api1 (Some ''robotA''))) ''b1'' =
     Some \<lparr>beacon_loc = [JInt 0, JInt 0], current_robot = Some ''robotA''\<rparr>"
proof -
  have c: "mqtt_client (api1 (Some ''robotB'')) = Some \<lparr>name = ''MiR_Fleet'', connected = True\<rparr>"
    by (simp add: api1_def)
  have d: "distinct (map fst (beacons (api1 (Some ''robotB''))))"
    by (simp add: api1_def)
  have w: "\<forall>(k, e) \<in> set (beacons (api1 (Some ''robotB''))).
             \<exists>d. dist_py exact_ops (beacon_loc e) [JInt 1, JInt 0] = Inr d"
    by (simp add: api1_def dist_examples)
  have m: "(''b1'', \<lparr>beacon_loc = [JInt 0, JInt 0], current_robot = Some ''robotB''\<rparr>)
      \<in> set (beacons (api1 (Some ''robotB'')))"
    by (simp add: api1_def)
  have r: "dist_py exact_ops
      (beacon_loc \<lparr>beacon_loc = [JInt 0, JInt 0], current_robot = Some ''robotB''\<rparr>)
      [JInt 1, JInt 0] = Inr (Finite 1)"
    by (simp add: dist_examples)
  have l: "float_lt (Finite 1) (Finite (beacon_radius (api1 (Some ''robotB''))))"
    by (simp add: api1_def)
  from update_beacon_entry[OF c d w m r l run_inside] c d m l
  show ?thesis by (simp add: run_inside dist_examples)
qed

text \<open>
  C3. With beacon signalling configured and \<^verbatim>\<open>_dist\<close> returning a distance for every
  beacon, a beacon \<open>b\<close> occupied by the updating robot whose computed distance to the
  position is greater than the alert radius has OFF published for it exactly once (and no
  ON) and its occupant cleared. A beacon whose occupant is not the updating robot never has
  OFF published for it, whatever \<^verbatim>\<open>_dist\<close> returns or raises. This holds for every
  floating-point arithmetic \<open>fl\<close> of the runtime.
\<close>

theorem update_beacon_exit:
  assumes "distinct (map fst (beacons self))"
    and "(b, bd) \<in> set (beacons self)"
    and "update_beacon fl self robot_name robot_pos = (r, tr, self')"
  shows "(mqtt_client self \<noteq> None \<and>
          (\<forall>(k, e) \<in> set (beacons self). \<exists>d. dist_py fl (beacon_loc e) robot_pos = Inr d) \<and>
          current_robot bd = Some robot_name \<and>
          dist_py fl (beacon_loc bd) robot_pos = Inr d \<and>
          float_gt d (Finite (beacon_radius self))
          \<longrightarrow> r = None \<and>
              count_list tr
                (Publish (''cgh/'' @ b @ ''/toggle_beacon_topic'')
            (JObj [(''id'', JStr b), (''toggle'', JInt 0)])) = 1 \<and>
              Publish (''cgh/'' @ b @ ''/toggle_beacon_topic'')
            (JObj [(''id'', JStr b), (''toggle'', JInt 1)]) \<notin> set tr \<and>
              map_of (beacons self') b = Some (bd\<lparr>current_robot := None\<rparr>))
       \<and> (current_robot bd \<noteq> Some robot_name
          \<longrightarrow> Publish (''cgh/'' @ b @ ''/toggle_beacon_topic'')
            (JObj [(''id'', JStr b), (''toggle'', JInt 0)]) \<notin> set tr)"
proof (intro conjI impI)
  assume a: "mqtt_client self \<noteq> None \<and>
          (\<forall>(k, e) \<in> set (beacons self). \<exists>d. dist_py fl (beacon_loc e) robot_pos = Inr d) \<and>
          current_robot bd = Some robot_name \<and>
          dist_py fl (beacon_loc bd) robot_pos = Inr d \<and>
          float_gt d (Finite (beacon_radius self))"
  then have wf: "\<forall>(k, e) \<in> set (beacons self). \<exists>d. dist_py fl (beacon_loc e) robot_pos = Inr d"
    by blast
  from update_beacon_returns[OF wf, of robot_name] assms(3) show r: "r = None" by simp
  from a have body: "beacon_body fl (beacon_radius self) robot_name robot_pos b bd =
      Inr ([beacon_off b, SetOccupant b None], bd\<lparr>current_robot := None\<rparr>)"
    by (simp add: beacon_body_Inr)
  from update_beacon_visit[OF assms(3,1,2)] body r a
  have f: "filter (about b) tr = [beacon_off b, SetOccupant b None]"
    and m: "map_of (beacons self') b = Some (bd\<lparr>current_robot := None\<rparr>)"
    by auto
  from m show "map_of (beacons self') b = Some (bd\<lparr>current_robot := None\<rparr>)" .
  have "count_list tr (beacon_off b) = count_list (filter (about b) tr) (beacon_off b)"
    by (simp add: count_list_filter)
  also have "\<dots> = 1" by (simp add: f beacon_off_def)
  finally show "count_list tr
                (Publish (''cgh/'' @ b @ ''/toggle_beacon_topic'')
            (JObj [(''id'', JStr b), (''toggle'', JInt 0)])) = 1"
    by (simp add: beacon_off_eq)
  have "beacon_on b \<in> set tr \<longleftrightarrow> beacon_on b \<in> set (filter (about b) tr)" by simp
  then have "beacon_on b \<notin> set tr"
    by (simp only: f) (simp add: beacon_on_def beacon_off_def)
  then show "Publish (''cgh/'' @ b @ ''/toggle_beacon_topic'')
            (JObj [(''id'', JStr b), (''toggle'', JInt 1)]) \<notin> set tr"
    by (simp add: beacon_on_eq)
next
  assume n: "current_robot bd \<noteq> Some robot_name"
  from update_beacon_visit[OF assms(3,1,2)]
  consider "filter (about b) tr = []"
    | bd' where "beacon_body fl (beacon_radius self) robot_name robot_pos b bd =
                   Inr (filter (about b) tr, bd')"
    by auto
  then have "beacon_off b \<notin> set (filter (about b) tr)"
  proof cases
    case 1
    then show ?thesis by simp
  next
    case 2
    with n have "filter (about b) tr = [] \<or>
        filter (about b) tr = [beacon_on b, SetOccupant b (Some robot_name)]"
      by (cases "dist_py fl (beacon_loc bd) robot_pos")
         (auto simp: beacon_body_Inl beacon_body_Inr split: if_splits)
    then show ?thesis
      by (elim disjE) (simp_all only: set_simps, simp_all add: beacon_on_def beacon_off_def)
  qed
  then have "beacon_off b \<notin> set tr" by simp
  then show "Publish (''cgh/'' @ b @ ''/toggle_beacon_topic'')
            (JObj [(''id'', JStr b), (''toggle'', JInt 0)]) \<notin> set tr"
    by (simp add: beacon_off_eq)
qed

theorem update_beacon_exit_witness:
  "distinct (map fst (beacons (api1 (Some ''robotA'')))) \<and>
   (''b1'', \<lparr>beacon_loc = [JInt 0, JInt 0], current_robot = Some ''robotA''\<rparr>)
      \<in> set (beacons (api1 (Some ''robotA''))) \<and>
   mqtt_client (api1 (Some ''robotA'')) \<noteq> None \<and>
   dist_py exact_ops [JInt 3, JInt 0] [JInt 5, JInt 0] = Inr (Finite 2) \<and>
   dist_py exact_ops [JInt 0, JInt 0] [JInt 5, JInt 0] = Inr (Finite 5) \<and>
   float_gt (Finite 5) (Finite (beacon_radius (api1 (Some ''robotA'')))) \<and>
   update_beacon exact_ops (api1 (Some ''robotA'')) ''robotA'' [JInt 5, JInt 0] =
     (None, [beacon_off ''b1'', SetOccupant ''b1'' None], api1 None) \<and>
   count_list [beacon_off ''b1'', SetOccupant ''b1'' None]
     (Publish ''cgh/b1/toggle_beacon_topic'' (JObj [(''id'', JStr ''b1''), (''toggle'', JInt 0)])) = 1 \<and>
   map_of (beacons (api1 None)) ''b1'' =
     Some \<lparr>beacon_loc = [JInt 0, JInt 0], current_robot = None\<rparr> \<and>
   (''b1'', \<lparr>beacon_loc = [JInt 0, JInt 0], current_robot = Some ''robotB''\<rparr>)
      \<in> set (beacons (api1 (Some ''robotB''))) \<and>
   Some ''robotB'' \<noteq> Some ''robotA'' \<and>
   Publish ''cgh/b1/toggle_beacon_topic'' (JObj [(''id'', JStr ''b1''), (''toggle'', JInt 0)])
     \<notin> set (fst (snd (update_beacon exact_ops (api1 (Some ''robotB'')) ''robotA''
                       [JInt 5, JInt 0])))"
proof -
  have d: "distinct (map fst (beacons (api1 occ)))" for occ
    by (simp add: api1_def)
  have m: "(''b1'', \<lparr>beacon_loc = [JInt 0, JInt 0], current_robot = occ\<rparr>)
      \<in> set (beacons (api1 occ))" for occ
    by (simp add: api1_def)
  have w: "\<forall>(k, e) \<in> set (beacons (api1 (Some ''robotA''))).
             \<exists>d. dist_py exact_ops (beacon_loc e) [JInt 5, JInt 0] = Inr d"
    by (simp add: api1_def dist_examples)
  have c: "mqtt_client (api1 (Some ''robotA'')) \<noteq> None"
    by (simp add: api1_def)
  have l: "float_gt (Finite 5) (Finite (beacon_radius (api1 (Some ''robotA''))))"
    by (simp add: api1_def)
  obtain r tr s where
    u: "update_beacon exact_ops (api1 (Some ''robotB'')) ''robotA'' [JInt 5, JInt 0] = (r, tr, s)"
    by (cases "update_beacon exact_ops (api1 (Some ''robotB'')) ''robotA'' [JInt 5, JInt 0]")
  from update_beacon_exit[OF d m run_outside, where d = "Finite 5"] w c l
  have "count_list [beacon_off ''b1'', SetOccupant ''b1'' None]
          (Publish ''cgh/b1/toggle_beacon_topic'' (JObj [(''id'', JStr ''b1''), (''toggle'', JInt 0)])) = 1 \<and>
        map_of (beacons (api1 None)) ''b1'' =
          Some \<lparr>beacon_loc = [JInt 0, JInt 0], current_robot = None\<rparr>"
    by (simp add: dist_examples)
  moreover from update_beacon_exit[OF d m u]
  have "Publish ''cgh/b1/toggle_beacon_topic'' (JObj [(''id'', JStr ''b1''), (''toggle'', JInt 0)])
     \<notin> set (fst (snd (update_beacon exact_ops (api1 (Some ''robotB'')) ''robotA''
                       [JInt 5, JInt 0])))"
    by (simp add: u)
  ultimately show ?thesis using d m c l by (simp add: run_outside dist_examples)
qed

text \<open>
  C8, as stated: in the exit and in the entry transition the occupant is updated before
  the publish is attempted. In \<^verbatim>\<open>update_beacon\<close> the call of \<^verbatim>\<open>_beacon_on\<close> (or
  \<^verbatim>\<open>_beacon_off\<close>) stands before the assignment: in the effects of an entry and of an
  exit the publish comes first.
\<close>

theorem update_beacon_write_first_counterexample:
  "fst (snd (update_beacon exact_ops (api1 None) ''robotA'' [JInt 1, JInt 0])) =
     [beacon_on ''b1'', SetOccupant ''b1'' (Some ''robotA'')] \<and>
   index_of (beacon_on ''b1'') (fst (snd (update_beacon exact_ops (api1 None) ''robotA'' [JInt 1, JInt 0])))
     < index_of (SetOccupant ''b1'' (Some ''robotA''))
         (fst (snd (update_beacon exact_ops (api1 None) ''robotA'' [JInt 1, JInt 0]))) \<and>
   fst (snd (update_beacon exact_ops (api1 (Some ''robotA'')) ''robotA'' [JInt 5, JInt 0])) =
     [beacon_off ''b1'', SetOccupant ''b1'' None] \<and>
   index_of (beacon_off ''b1'')
       (fst (snd (update_beacon exact_ops (api1 (Some ''robotA'')) ''robotA'' [JInt 5, JInt 0])))
     < index_of (SetOccupant ''b1'' None)
         (fst (snd (update_beacon exact_ops (api1 (Some ''robotA'')) ''robotA'' [JInt 5, JInt 0])))"
  by (simp add: run_inside run_outside beacon_on_def beacon_off_def)

text \<open>
  C8, amended: in every transition of \<^verbatim>\<open>update_beacon\<close> the publish is attempted
  first and the occupant is written right after it. The effects of a call are a sequence
  of transitions, each one the OFF publish followed by the write of \<^verbatim>\<open>None\<close>, or the
  ON publish followed by the write of the updating robot.
\<close>

theorem update_beacon_publish_then_write:
  assumes "update_beacon fl self robot_name robot_pos = (r, tr, self')"
  shows "\<exists>blocks. tr = concat blocks \<and>
           (\<forall>blk \<in> set blocks. \<exists>k. blk = [beacon_off k, SetOccupant k None] \<or>
                                    blk = [beacon_on k, SetOccupant k (Some robot_name)])"
proof (cases "mqtt_client self")
  case None
  with assms have "tr = concat []" by (auto simp: update_beacon_def)
  then show ?thesis by (intro exI[of _ "[]"]) simp
next
  case (Some c)
  obtain r1 tr1 items1 where
    loop: "beacon_loop fl (beacon_radius self) robot_name robot_pos (beacons self) = (r1, tr1, items1)"
    by (cases "beacon_loop fl (beacon_radius self) robot_name robot_pos (beacons self)")
  with assms Some have "tr = tr1" by (auto simp: update_beacon_def)
  with beacon_loop_blocks[OF loop] show ?thesis by simp
qed

theorem update_beacon_publish_then_write_witness:
  "update_beacon exact_ops (api1 None) ''robotA'' [JInt 1, JInt 0] =
     (None, [beacon_on ''b1'', SetOccupant ''b1'' (Some ''robotA'')], api1 (Some ''robotA'')) \<and>
   (\<exists>blocks. [beacon_on ''b1'', SetOccupant ''b1'' (Some ''robotA'')] = concat blocks \<and>
      (\<forall>blk \<in> set blocks. \<exists>k. blk = [beacon_off k, SetOccupant k None] \<or>
                               blk = [beacon_on k, SetOccupant k (Some ''robotA'')]))"
  using update_beacon_publish_then_write[OF run_inside[of None]] run_inside[of None]
  by simp

end
